theory Spec2Isabelle
  imports Complex_Main
begin

section \<open>Python values and exceptions\<close>

text \<open>
  The exceptions that \<^verbatim>\<open>processutils.py\<close> and \<^verbatim>\<open>timeutils.py\<close> raise or let through.
  \<open>ProcessExecutionError\<close> carries the fields its constructor stores (exit code, stdout,
  stderr, command); \<open>OSError\<close> carries its errno; \<open>NameError\<close> the name that has no
  binding; \<open>OverflowError\<close> is what \<^verbatim>\<open>time.sleep\<close> raises on a duration too large for
  its clock.
\<close>

datatype error =
    UnknownArgumentError "string list"
  | ProcessExecutionError int string string "string list"
  | OSError int
  | ValueError
  | RuntimeError
  | TypeError
  | OverflowError
  | NameError string

section \<open>The backoff wait (processutils.py, lines 125-126 and 258-259)\<close>

text \<open>
  Both \<^verbatim>\<open>on_execute\<close> and \<^verbatim>\<open>_backoff_sleep\<close> compute
  \<^verbatim>\<open>exp = backoff_rate ** n; wait_for = max(0, interval * exp)\<close>.
  The number type is left open (any linearly ordered ring: Python's integers, or
  fractions read as exact numbers).
\<close>

definition wait_for :: "'a::linordered_idom \<Rightarrow> 'a \<Rightarrow> nat \<Rightarrow> 'a" where
  "wait_for interval backoff_rate n = (let exp = backoff_rate ^ n in max 0 (interval * exp))"

text \<open>\<^verbatim>\<open>_backoff_sleep\<close> of \<^verbatim>\<open>retry\<close>: the wait in milliseconds.\<close>

definition backoff_sleep :: "'a::linordered_idom \<Rightarrow> 'a \<Rightarrow> nat \<Rightarrow> 'a \<Rightarrow> 'a" where
  "backoff_sleep interval backoff_rate previous_attempt_number delay_since_first_attempt_ms =
     wait_for interval backoff_rate previous_attempt_number * 1000"

section \<open>StopWatch (timeutils.py)\<close>

datatype watch_state = STARTED | STOPPED

record StopWatch =
  duration :: "real option"
  started_at :: "real option"
  stopped_at :: "real option"
  state :: "watch_state option"

text \<open>
  \<^verbatim>\<open>__init__\<close>. The field \<^verbatim>\<open>_splits\<close> is left out: only \<^verbatim>\<open>split\<close> and
  \<^verbatim>\<open>start\<close> assign it and \<^verbatim>\<open>elapsed\<close> never reads it. Clock readings
  (\<^verbatim>\<open>now()\<close>) are arguments of the methods that take one; they are arbitrary reals,
  so a clock that runs backwards is covered.
\<close>

definition StopWatch_init :: "real option \<Rightarrow> error + StopWatch" where
  "StopWatch_init d =
     (if d \<noteq> None \<and> the d < 0 then Inl ValueError
      else Inr \<lparr>duration = d, started_at = None, stopped_at = None, state = None\<rparr>)"

definition start :: "StopWatch \<Rightarrow> real \<Rightarrow> StopWatch" where
  "start w now =
     (if state w = Some STARTED then w
      else w\<lparr>started_at := Some now, stopped_at := None, state := Some STARTED\<rparr>)"

definition stop :: "StopWatch \<Rightarrow> real \<Rightarrow> error + StopWatch" where
  "stop w now =
     (if state w = Some STOPPED then Inr w
      else if state w \<noteq> Some STARTED then Inl RuntimeError
      else Inr (w\<lparr>stopped_at := Some now, state := Some STOPPED\<rparr>))"

text \<open>\<^verbatim>\<open>restart\<close> reads the clock in \<^verbatim>\<open>stop\<close> (when started) and again in \<^verbatim>\<open>start\<close>.\<close>

definition restart :: "StopWatch \<Rightarrow> real \<Rightarrow> real \<Rightarrow> error + StopWatch" where
  "restart w now1 now2 =
     (if state w = Some STARTED then
        (case stop w now1 of Inl e \<Rightarrow> Inl e | Inr w' \<Rightarrow> Inr (start w' now2))
      else Inr (start w now2))"

definition resume :: "StopWatch \<Rightarrow> error + StopWatch" where
  "resume w =
     (if state w = Some STOPPED then Inr (w\<lparr>state := Some STARTED\<rparr>)
      else Inl RuntimeError)"

text \<open>
  \<^verbatim>\<open>_delta_seconds\<close>. Python's \<^verbatim>\<open>later - earlier\<close> raises TypeError when an
  operand is \<^verbatim>\<open>None\<close>.
\<close>

definition delta_seconds :: "real option \<Rightarrow> real option \<Rightarrow> error + real" where
  "delta_seconds earlier later =
     (case (earlier, later) of
        (Some e, Some l) \<Rightarrow> Inr (max 0 (l - e))
      | _ \<Rightarrow> Inl TypeError)"

definition elapsed :: "StopWatch \<Rightarrow> real \<Rightarrow> real option \<Rightarrow> error + real" where
  "elapsed w now maximum =
     (if state w \<noteq> Some STARTED \<and> state w \<noteq> Some STOPPED then Inl RuntimeError
      else
        (case (if state w = Some STOPPED then delta_seconds (started_at w) (stopped_at w)
               else delta_seconds (started_at w) (Some now)) of
           Inl e \<Rightarrow> Inl e
         | Inr el \<Rightarrow>
             (case maximum of
                None \<Rightarrow> Inr el
              | Some m \<Rightarrow> if el > m then Inr (max 0 m) else Inr el)))"

text \<open>
  The calls that change a watch. A call that raises leaves the object as it was (every
  \<^verbatim>\<open>raise\<close> of these methods comes before the first assignment), so a caller that
  catches the error goes on with the same watch.
\<close>

datatype watch_call = Start real | Stop real | Restart real real | Resume

definition call :: "StopWatch \<Rightarrow> watch_call \<Rightarrow> StopWatch" where
  "call w c =
     (case c of
        Start now \<Rightarrow> start w now
      | Stop now \<Rightarrow> (case stop w now of Inl e \<Rightarrow> w | Inr w' \<Rightarrow> w')
      | Restart now1 now2 \<Rightarrow> (case restart w now1 now2 of Inl e \<Rightarrow> w | Inr w' \<Rightarrow> w')
      | Resume \<Rightarrow> (case resume w of Inl e \<Rightarrow> w | Inr w' \<Rightarrow> w'))"

definition calls :: "StopWatch \<Rightarrow> watch_call list \<Rightarrow> StopWatch" where
  "calls w cs = foldl call w cs"

text \<open>The fields a started or stopped watch has set.\<close>

definition timestamps_set :: "StopWatch \<Rightarrow> bool" where
  "timestamps_set w =
     ((state w = Some STARTED \<longrightarrow> started_at w \<noteq> None) \<and>
      (state w = Some STOPPED \<longrightarrow> started_at w \<noteq> None \<and> stopped_at w \<noteq> None))"

section \<open>Keyword arguments (processutils.py, \<^verbatim>\<open>execute\<close>)\<close>

text \<open>
  The values a caller passes in \<^verbatim>\<open>**kwargs\<close>: \<^verbatim>\<open>None\<close>, booleans, integers, lists of
  integers and strings. Floats are outside this model. \<^verbatim>\<open>kwargs\<close> is the dict in
  insertion order; its keys are distinct.
\<close>

datatype pyval = PNone | PBool bool | PInt int | PList "int list" | PStr string

type_synonym kwargs = "(string \<times> pyval) list"

text \<open>Python's truth value of an object, as \<^verbatim>\<open>if x:\<close> and \<^verbatim>\<open>x and y\<close> test it.\<close>

fun truthy :: "pyval \<Rightarrow> bool" where
  "truthy PNone = False"
| "truthy (PBool b) = b"
| "truthy (PInt i) = (i \<noteq> 0)"
| "truthy (PList xs) = (xs \<noteq> [])"
| "truthy (PStr s) = (s \<noteq> [])"

text \<open>
  The number an object stands for in \<^verbatim>\<open>attempts > 0\<close>, \<^verbatim>\<open>attempts -= 1\<close>,
  \<^verbatim>\<open>backoff_rate ** n\<close> and \<^verbatim>\<open>max(0, interval * exp)\<close>: integers, and booleans as 0 and 1.
  For the other values Python 3 raises TypeError in these expressions (for a list or a
  string as \<^verbatim>\<open>interval\<close>, at \<^verbatim>\<open>max\<close>).
\<close>

fun as_int :: "pyval \<Rightarrow> int option" where
  "as_int (PInt i) = Some i"
| "as_int (PBool b) = Some (if b then 1 else 0)"
| "as_int _ = None"

text \<open>\<^verbatim>\<open>key in kwargs\<close>, \<^verbatim>\<open>kwargs.pop(key, default)\<close> and \<^verbatim>\<open>kwargs.get(key, default)\<close>.\<close>

definition has_key :: "string \<Rightarrow> kwargs \<Rightarrow> bool" where
  "has_key k kw = (k \<in> fst ` set kw)"

definition pop :: "string \<Rightarrow> pyval \<Rightarrow> kwargs \<Rightarrow> pyval \<times> kwargs" where
  "pop k d kw =
     (case map_of kw k of
        None \<Rightarrow> (d, kw)
      | Some v \<Rightarrow> (v, filter (\<lambda>p. fst p \<noteq> k) kw))"

definition get :: "string \<Rightarrow> pyval \<Rightarrow> kwargs \<Rightarrow> pyval" where
  "get k d kw = (case map_of kw k of None \<Rightarrow> d | Some v \<Rightarrow> v)"

text \<open>
  The local variables of \<^verbatim>\<open>execute\<close> that the retry loop reads, as lines 146-170 set
  them. \<^verbatim>\<open>backoff_rate\<close> is \<open>None\<close> when the name is never assigned (the branch
  \<^verbatim>\<open>'delay_on_retry' in kwargs\<close>). The options that only go to \<^verbatim>\<open>Popen\<close> and
  \<^verbatim>\<open>communicate\<close> (cwd, process_input, env_variables, shell, preexec_fn) are popped
  and not kept: what they do to the child is part of the environment below.
\<close>

record options =
  opt_interval :: pyval
  opt_backoff_rate :: "pyval option"
  opt_check_exit_code :: pyval
  opt_ignore_exit_code :: bool
  opt_delay_on_retry :: pyval
  opt_attempts :: pyval
  opt_loglevel :: pyval
  opt_timeout :: pyval

text \<open>Lines 166-170: the pair \<^verbatim>\<open>(ignore_exit_code, check_exit_code)\<close> after normalisation.\<close>

definition normalize_check_exit_code :: "pyval \<Rightarrow> bool \<times> pyval" where
  "normalize_check_exit_code check_exit_code =
     (case check_exit_code of
        PBool b \<Rightarrow> (\<not> b, PList [0])
      | PInt i \<Rightarrow> (False, PList [i])
      | _ \<Rightarrow> (False, check_exit_code))"

text \<open>
  Lines 146-170: the local variables, and what is left in \<^verbatim>\<open>kwargs\<close>.
  \<^verbatim>\<open>default_raise_timeout\<close> is assigned and never read.
\<close>

definition pop_options :: "kwargs \<Rightarrow> options \<times> kwargs" where
  "pop_options kwargs0 =
     (let (interval, backoff_rate, kwargs) =
            (if has_key ''delay_on_retry'' kwargs0 then (PNone, None, kwargs0)
             else
               (let kwargs = kwargs0 @ [(''delay_on_retry'', PBool False)];
                    (interval, kwargs) = pop ''interval'' (PInt 1) kwargs;
                    (backoff_rate, kwargs) = pop ''backoff_rate'' (PInt 2) kwargs
                in (interval, Some backoff_rate, kwargs)));
          (cwd, kwargs) = pop ''cwd'' PNone kwargs;
          (process_input, kwargs) = pop ''process_input'' PNone kwargs;
          (env_variables, kwargs) = pop ''env_variables'' PNone kwargs;
          (check_exit_code, kwargs) = pop ''check_exit_code'' (PList [0]) kwargs;
          (delay_on_retry, kwargs) = pop ''delay_on_retry'' (PBool True) kwargs;
          (attempts, kwargs) = pop ''attempts'' (PInt 1) kwargs;
          (shell, kwargs) = pop ''shell'' (PBool False) kwargs;
          (loglevel, kwargs) = pop ''loglevel'' (PInt 10) kwargs;
          (preexec_fn, kwargs) = pop ''preexec_fn'' PNone kwargs;
          (timeout, kwargs) = pop ''timeout'' PNone kwargs;
          default_raise_timeout = get ''check_exit_code'' (PBool True) kwargs;
          (ignore_exit_code, check_exit_code) = normalize_check_exit_code check_exit_code
      in (\<lparr>opt_interval = interval, opt_backoff_rate = backoff_rate,
            opt_check_exit_code = check_exit_code,
            opt_ignore_exit_code = ignore_exit_code,
            opt_delay_on_retry = delay_on_retry, opt_attempts = attempts,
            opt_loglevel = loglevel, opt_timeout = timeout\<rparr>, kwargs))"

text \<open>
  Lines 146-173: \<^verbatim>\<open>if kwargs: raise UnknownArgumentError(...)\<close>, with the names left
  in \<^verbatim>\<open>kwargs\<close>, or the local variables.
\<close>

definition execute_options :: "kwargs \<Rightarrow> error + options" where
  "execute_options kwargs0 =
     (let (opts, kwargs) = pop_options kwargs0
      in if kwargs \<noteq> [] then Inl (UnknownArgumentError (map fst kwargs)) else Inr opts)"

text \<open>The option names that lines 146-163 take out of \<^verbatim>\<open>kwargs\<close>.\<close>

definition recognized :: "string list" where
  "recognized = [''delay_on_retry'', ''interval'', ''backoff_rate'', ''cwd'', ''process_input'',
     ''env_variables'', ''check_exit_code'', ''attempts'', ''shell'', ''loglevel'',
     ''preexec_fn'', ''timeout'']"

section \<open>The environment, the effects and the shared data of \<^verbatim>\<open>execute\<close>\<close>

text \<open>
  What the operating system does is an input of the model. The \<open>k\<close>-th call of
  \<^verbatim>\<open>subprocess.Popen\<close> (counted from 0) either raises or gives a process; for a process
  the environment says whether the timeout timer, if one is armed, runs out before
  \<^verbatim>\<open>on_completion\<close> cancels it, and what \<^verbatim>\<open>communicate\<close> does: raise, or return
  stdout and stderr and leave the return code.
\<close>

datatype communicate = CommunicateRaises error | Returns string string int

datatype popen = PopenRaises error | Proc bool communicate

text \<open>
  \<^verbatim>\<open>time.sleep(wait_for)\<close> on line 128 is a call into the platform as well: for the
  process of the \<open>k\<close>-th \<^verbatim>\<open>Popen\<close> call and a duration it either returns (\<open>None\<close>) or
  raises. CPython itself raises OverflowError for a number of seconds that does not fit
  its 64-bit nanosecond clock, that is above \<open>sleep_max\<close>; \<open>time_sleep\<close> is the platform
  on which this is the only failure. The sleeps of lines 241 and 250 are at most two
  seconds long and are taken to return.
\<close>

type_synonym sleeper = "nat \<Rightarrow> int \<Rightarrow> error option"

definition sleep_max :: int where
  "sleep_max = 9223372036"

definition time_sleep :: sleeper where
  "time_sleep k seconds = (if sleep_max < seconds then Some OverflowError else None)"

text \<open>
  The effects, in the order they happen: a \<^verbatim>\<open>Popen\<close> call, the call of
  \<^verbatim>\<open>time.sleep\<close> in \<^verbatim>\<open>on_execute\<close> with its duration (recorded when the call is made,
  whether it returns or raises), a timer started for a process, the body of
  \<^verbatim>\<open>on_timeout\<close> failing on the timer's thread, a signal sent to a process, a timer
  cancelled, the random sleep of line 241 and the \<^verbatim>\<open>time.sleep(0)\<close> of line 250.
\<close>

datatype event =
    Popen nat
  | BackoffSleep int
  | TimerStart nat
  | TimerThreadError nat error
  | SendSignal nat
  | TimerCancel nat
  | JitterSleep
  | SleepZero

text \<open>
  \<^verbatim>\<open>shared_data = [0, None, None]\<close> (the counter of \<^verbatim>\<open>on_execute\<close> calls, the timer,
  the process that timed out), with the number of \<^verbatim>\<open>Popen\<close> calls made and the effects
  so far. A process and its timer are named by the index of the \<^verbatim>\<open>Popen\<close> call.
\<close>

record exec_state =
  shared_data0 :: nat
  shared_data1 :: "nat option"
  shared_data2 :: "nat option"
  popen_calls :: nat
  trace :: "event list"

definition initial :: exec_state where
  "initial = \<lparr>shared_data0 = 0, shared_data1 = None, shared_data2 = None,
              popen_calls = 0, trace = []\<rparr>"

definition emit :: "event \<Rightarrow> exec_state \<Rightarrow> exec_state" where
  "emit e s = s\<lparr>trace := trace s @ [e]\<rparr>"

text \<open>
  Name lookup for the body of \<^verbatim>\<open>on_timeout\<close>: its own parameter, the names
  \<^verbatim>\<open>execute\<close> assigns (parameters, local variables, nested functions) and the names
  the module binds (imports, \<^verbatim>\<open>LOG\<close>, classes, functions). Python's builtins hold
  no \<^verbatim>\<open>sig_end\<close>.
\<close>

definition on_timeout_locals :: "string list" where
  "on_timeout_locals = [''proc'']"

definition execute_locals :: "string list" where
  "execute_locals = [''cmd'', ''kwargs'', ''shared_data'', ''on_timeout'', ''on_execute'',
     ''on_completion'', ''interval'', ''backoff_rate'', ''cwd'', ''process_input'',
     ''env_variables'', ''check_exit_code'', ''ignore_exit_code'', ''delay_on_retry'',
     ''attempts'', ''shell'', ''loglevel'', ''preexec_fn'', ''timeout'',
     ''default_raise_timeout'', ''watch'', ''_PIPE'', ''on_preexec_fn'', ''close_fds'', ''obj'',
     ''result'', ''_returncode'', ''stdout'', ''stderr'', ''err'', ''format'']"

definition module_globals :: "string list" where
  "module_globals = [''functools'', ''logging'', ''os'', ''random'', ''retrying'', ''signal'',
     ''subprocess'', ''sys'', ''threading'', ''time'', ''timeutils'', ''LOG'',
     ''UnknownArgumentError'', ''ProcessExecutionError'', ''_subprocess_setup'', ''execute'',
     ''retry'', ''unlink_root'']"

definition bound :: "string list \<Rightarrow> string \<Rightarrow> bool" where
  "bound scope name = (name \<in> set scope)"

text \<open>
  \<^verbatim>\<open>on_timeout(proc)\<close>, lines 113-117, run by the timer's thread. The argument of
  \<^verbatim>\<open>LOG.warning\<close> reads \<^verbatim>\<open>sig_end\<close> first; an unbound name raises NameError there, the
  thread ends, and lines 116-117 are not reached.
\<close>

definition on_timeout :: "nat \<Rightarrow> exec_state \<Rightarrow> exec_state" where
  "on_timeout proc s =
     (if bound (on_timeout_locals @ execute_locals @ module_globals) ''sig_end''
      then emit (SendSignal proc) (s\<lparr>shared_data2 := Some proc\<rparr>)
      else emit (TimerThreadError proc (NameError ''sig_end'')) s)"

text \<open>
  \<^verbatim>\<open>on_execute(proc)\<close>, lines 119-134. The wait needs both numbers (TypeError
  otherwise, before anything is done); an exception of \<^verbatim>\<open>time.sleep\<close> leaves the
  function before the counter is increased and before a timer is started.
\<close>

definition on_execute ::
  "sleeper \<Rightarrow> options \<Rightarrow> nat \<Rightarrow> exec_state \<Rightarrow> (error \<times> exec_state) + exec_state"
where
  "on_execute sleep opts proc s =
     (case (if shared_data0 s \<noteq> 0 \<and> truthy (opt_interval opts) then
              (case opt_backoff_rate opts of
                 None \<Rightarrow> Inl (NameError ''backoff_rate'', s)
               | Some backoff_rate \<Rightarrow>
                   (case (as_int backoff_rate, as_int (opt_interval opts)) of
                      (Some b, Some i) \<Rightarrow>
                        (let wait = wait_for i b (shared_data0 s);
                             s1 = emit (BackoffSleep wait) s
                         in case sleep proc wait of
                              Some e \<Rightarrow> Inl (e, s1)
                            | None \<Rightarrow> Inr s1)
                    | _ \<Rightarrow> Inl (TypeError, s)))
            else Inr s) of
        Inl (e, s1) \<Rightarrow> Inl (e, s1)
      | Inr s1 \<Rightarrow>
          (let s2 = s1\<lparr>shared_data0 := shared_data0 s1 + 1\<rparr>
           in if truthy (opt_timeout opts)
              then Inr (emit (TimerStart proc)
                         (s2\<lparr>shared_data2 := None, shared_data1 := Some proc\<rparr>))
              else Inr s2))"

text \<open>The state an \<^verbatim>\<open>on_execute\<close> call leaves, whether it returns or raises.\<close>

definition state_after :: "(error \<times> exec_state) + exec_state \<Rightarrow> exec_state" where
  "state_after r = (case r of Inl (e, s) \<Rightarrow> s | Inr s \<Rightarrow> s)"

text \<open>\<^verbatim>\<open>on_completion(proc)\<close>, lines 136-143: cancel the timer that was last started.\<close>

definition on_completion :: "nat \<Rightarrow> exec_state \<Rightarrow> exec_state" where
  "on_completion proc s =
     (case shared_data1 s of None \<Rightarrow> s | Some t \<Rightarrow> emit (TimerCancel t) s)"

text \<open>
  Line 211: \<^verbatim>\<open>not ignore_exit_code and _returncode not in check_exit_code\<close>. The
  membership test raises TypeError on a value that is no container of integers.
\<close>

definition exit_code_rejected :: "options \<Rightarrow> int \<Rightarrow> error + bool" where
  "exit_code_rejected opts returncode =
     (if opt_ignore_exit_code opts then Inr False
      else (case opt_check_exit_code opts of
              PList codes \<Rightarrow> Inr (returncode \<notin> set codes)
            | _ \<Rightarrow> Inl TypeError))"

text \<open>
  Lines 183-217, the body of the \<^verbatim>\<open>try\<close> for one attempt: \<^verbatim>\<open>Popen\<close>,
  \<^verbatim>\<open>on_execute\<close>, \<^verbatim>\<open>communicate\<close> under \<^verbatim>\<open>finally: on_completion\<close>, then the
  exit code check. \<open>Inl\<close> is the exception that leaves the \<^verbatim>\<open>try\<close> body, \<open>Inr\<close> the
  value of \<^verbatim>\<open>return result\<close>. Of the log calls only one thing is kept: the first,
  \<^verbatim>\<open>LOG.log(loglevel, ...)\<close> on line 183, raises TypeError when \<^verbatim>\<open>loglevel\<close> is no
  integer (\<^verbatim>\<open>Logger.log\<close> checks its level; \<^verbatim>\<open>logging.raiseExceptions\<close> is taken at
  its default).
\<close>

definition attempt ::
  "sleeper \<Rightarrow> options \<Rightarrow> string list \<Rightarrow> (nat \<Rightarrow> popen) \<Rightarrow> exec_state
     \<Rightarrow> (error + string \<times> string) \<times> exec_state"
where
  "attempt sleep opts cmd env s =
     (if as_int (opt_loglevel opts) = None then (Inl TypeError, s)
      else
      let k = popen_calls s;
          s1 = emit (Popen k) (s\<lparr>popen_calls := Suc k\<rparr>)
      in case env k of
           PopenRaises e \<Rightarrow> (Inl e, s1)
         | Proc expires comm \<Rightarrow>
             (case on_execute sleep opts k s1 of
                Inl (e, s2) \<Rightarrow> (Inl e, s2)
              | Inr s2 \<Rightarrow>
                  (let s3 = (if shared_data1 s2 = Some k \<and> expires then on_timeout k s2 else s2);
                       s4 = on_completion k s3
                   in case comm of
                        CommunicateRaises e \<Rightarrow> (Inl e, s4)
                      | Returns stdout stderr returncode \<Rightarrow>
                          (case exit_code_rejected opts returncode of
                             Inl e \<Rightarrow> (Inl e, s4)
                           | Inr True \<Rightarrow>
                               (Inl (ProcessExecutionError returncode stdout stderr cmd), s4)
                           | Inr False \<Rightarrow> (Inr (stdout, stderr), s4)))))"

text \<open>\<^verbatim>\<open>except (ProcessExecutionError, OSError)\<close>, line 218.\<close>

fun caught :: "error \<Rightarrow> bool" where
  "caught (ProcessExecutionError exit_code stdout stderr cmd) = True"
| "caught (OSError errno) = True"
| "caught _ = False"

text \<open>
  Lines 178-250, the loop, on the integer \<^verbatim>\<open>attempts\<close>. An exception that is caught
  on the last attempt (\<^verbatim>\<open>not attempts\<close> after the decrement) or not caught at all leaves
  the function; \<^verbatim>\<open>finally: time.sleep(0)\<close> runs after every attempt. When the loop
  ends without a \<^verbatim>\<open>return\<close>, the function returns \<^verbatim>\<open>None\<close>: the result \<open>Inr None\<close>.
\<close>

function attempts_loop ::
  "sleeper \<Rightarrow> options \<Rightarrow> string list \<Rightarrow> (nat \<Rightarrow> popen) \<Rightarrow> int \<Rightarrow> exec_state
     \<Rightarrow> (error + (string \<times> string) option) \<times> exec_state"
where
  "attempts_loop sleep opts cmd env attempts s =
     (if attempts > 0 then
        (case attempt sleep opts cmd env s of
           (Inr result, s1) \<Rightarrow> (Inr (Some result), emit SleepZero s1)
         | (Inl err, s1) \<Rightarrow>
             if caught err \<and> attempts - 1 \<noteq> 0 then
               attempts_loop sleep opts cmd env (attempts - 1)
                 (emit SleepZero
                    (if truthy (opt_delay_on_retry opts) then emit JitterSleep s1 else s1))
             else (Inl err, emit SleepZero s1))
      else (Inr None, s))"
  by pat_completeness auto
termination
  by (relation "measure (\<lambda>(sleep, opts, cmd, env, attempts, s). nat attempts)") auto

declare attempts_loop.simps [simp del]

text \<open>
  \<^verbatim>\<open>execute(*cmd, **kwargs)\<close> on a platform whose \<^verbatim>\<open>time.sleep\<close> behaves as \<open>sleep\<close>.
  The first test \<^verbatim>\<open>attempts > 0\<close> raises TypeError in Python 3 when \<^verbatim>\<open>attempts\<close> is no
  number.
\<close>

definition execute_under ::
  "sleeper \<Rightarrow> string list \<Rightarrow> kwargs \<Rightarrow> (nat \<Rightarrow> popen)
     \<Rightarrow> (error + (string \<times> string) option) \<times> exec_state"
where
  "execute_under sleep cmd kwargs env =
     (case execute_options kwargs of
        Inl e \<Rightarrow> (Inl e, initial)
      | Inr opts \<Rightarrow>
          (case as_int (opt_attempts opts) of
             None \<Rightarrow> (Inl TypeError, initial)
           | Some attempts \<Rightarrow> attempts_loop sleep opts cmd env attempts initial))"

text \<open>\<^verbatim>\<open>execute\<close> with CPython's \<^verbatim>\<open>time.sleep\<close>.\<close>

definition execute ::
  "string list \<Rightarrow> kwargs \<Rightarrow> (nat \<Rightarrow> popen)
     \<Rightarrow> (error + (string \<times> string) option) \<times> exec_state"
where
  "execute cmd kwargs env = execute_under time_sleep cmd kwargs env"

text \<open>
  The two waits between attempts: the sleep of \<^verbatim>\<open>on_execute\<close> is taken when
  \<^verbatim>\<open>interval\<close> is true (line 124, from the second call on), the random sleep when
  \<^verbatim>\<open>delay_on_retry\<close> is true (line 240).
\<close>

definition backoff_wait_active :: "options \<Rightarrow> bool" where
  "backoff_wait_active opts = truthy (opt_interval opts)"

definition jitter_active :: "options \<Rightarrow> bool" where
  "jitter_active opts = truthy (opt_delay_on_retry opts)"

text \<open>A command that leaves the same return code on every run, with empty output.\<close>

definition always_exits :: "int \<Rightarrow> nat \<Rightarrow> popen" where
  "always_exits returncode k = Proc False (Returns [] [] returncode)"

text \<open>A command that outlives the timeout on every run and then exits by itself.\<close>

definition outlives_timeout :: "int \<Rightarrow> nat \<Rightarrow> popen" where
  "outlives_timeout returncode k = Proc True (Returns [] [] returncode)"

text \<open>
  A command whose first \<^verbatim>\<open>Popen\<close> call raises OSError (errno 2) and whose later runs
  leave return code 1.
\<close>

definition first_popen_fails :: "nat \<Rightarrow> popen" where
  "first_popen_fails k = (if k = 0 then PopenRaises (OSError 2) else Proc False (Returns [] [] 1))"

text \<open>
  For stating what the counter \<^verbatim>\<open>shared_data[0]\<close> is worth: whether a \<^verbatim>\<open>Popen\<close> call
  gave a process, and the number of \<^verbatim>\<open>on_execute\<close> calls that have reached line 130
  when the \<open>k\<close>-th \<^verbatim>\<open>Popen\<close> call is made, with \<^verbatim>\<open>interval\<close> \<open>i \<noteq> 0\<close> and
  \<^verbatim>\<open>backoff_rate\<close> \<open>b\<close>: a call counts when its \<^verbatim>\<open>Popen\<close> gave a process and its sleep,
  if it had one, returned.
\<close>

fun created :: "popen \<Rightarrow> bool" where
  "created (Proc expires comm) = True"
| "created (PopenRaises e) = False"

fun tries :: "sleeper \<Rightarrow> (nat \<Rightarrow> popen) \<Rightarrow> int \<Rightarrow> int \<Rightarrow> nat \<Rightarrow> nat" where
  "tries sleep env i b 0 = 0"
| "tries sleep env i b (Suc k) =
     (let n = tries sleep env i b k
      in if created (env k) \<and> (n = 0 \<or> sleep k (wait_for i b n) = None) then Suc n else n)"

fun spawn_or_wait :: "event \<Rightarrow> bool" where
  "spawn_or_wait (Popen k) = True"
| "spawn_or_wait (BackoffSleep seconds) = True"
| "spawn_or_wait _ = False"

section \<open>The retry decorator (processutils.py, \<^verbatim>\<open>retry\<close>)\<close>

text \<open>
  What \<^verbatim>\<open>retry\<close> hands to \<^verbatim>\<open>retrying.Retrying\<close> when it returns a decorator: the three
  callbacks of lines 254-268.
\<close>

record ('e, 'a) retry_callbacks =
  retry_on_exception :: "'e \<Rightarrow> bool"
  wait_func :: "nat \<Rightarrow> 'a \<Rightarrow> 'a"
  stop_func :: "nat \<Rightarrow> 'a \<Rightarrow> bool"

definition retry_locals :: "string list" where
  "retry_locals = [''exceptions'', ''interval'', ''retries'', ''backoff_rate'',
     ''_retry_on_exception'', ''_backoff_sleep'', ''_print_stop'', ''_decorator'']"

text \<open>
  \<^verbatim>\<open>retry(exceptions, interval, retries, backoff_rate)\<close>, lines 252-284. The argument of
  \<^verbatim>\<open>ValueError\<close> on line 271 calls \<^verbatim>\<open>_\<close>, a name that neither \<^verbatim>\<open>retry\<close> nor the
  module binds; \<open>installed\<close> are the names the application has put into Python's
  builtins (as \<^verbatim>\<open>gettext.install\<close> does for \<^verbatim>\<open>_\<close>). The class or tuple of classes
  \<^verbatim>\<open>exceptions\<close> is only used in \<^verbatim>\<open>isinstance(e, exceptions)\<close> (line 255); it is given
  as the set of its instances, those of subclasses included.
\<close>

definition retry ::
  "string list \<Rightarrow> 'e set \<Rightarrow> 'a::linordered_idom \<Rightarrow> int \<Rightarrow> 'a \<Rightarrow> error + ('e, 'a) retry_callbacks"
where
  "retry installed exceptions interval retries backoff_rate =
     (if retries < 1 then
        (if bound (retry_locals @ module_globals @ installed) ''_''
         then Inl ValueError
         else Inl (NameError ''_''))
      else Inr \<lparr>retry_on_exception = (\<lambda>e. e \<in> exceptions),
                wait_func = backoff_sleep interval backoff_rate,
                stop_func = (\<lambda>previous_attempt_number delay_since_first_attempt_ms.
                               int previous_attempt_number = retries)\<rparr>)"

section \<open>Properties of the backoff wait\<close>

lemma wait_for_nonneg: "0 \<le> wait_for interval backoff_rate n"
  by (simp add: wait_for_def)

lemma wait_for_mono:
  fixes interval backoff_rate :: "'a::linordered_idom"
  assumes "0 \<le> interval" and "1 \<le> backoff_rate" and "m \<le> n"
  shows "wait_for interval backoff_rate m \<le> wait_for interval backoff_rate n"
proof -
  have "backoff_rate ^ m \<le> backoff_rate ^ n"
    using assms(2,3) by (rule power_increasing[rotated])
  then have "interval * backoff_rate ^ m \<le> interval * backoff_rate ^ n"
    using assms(1) by (rule mult_left_mono)
  then show ?thesis
    by (simp add: wait_for_def max.coboundedI2)
qed

text \<open>
  C7. For every attempt number \<open>n\<close>, \<open>interval \<ge> 0\<close> and \<open>backoff_rate \<ge> 0\<close>, the wait
  \<open>max(0, interval * backoff_rate ^ n)\<close> that \<^verbatim>\<open>on_execute\<close> sleeps for and that
  \<^verbatim>\<open>_backoff_sleep\<close> returns (in milliseconds) is not negative, and it does not decrease
  from attempt number \<open>m\<close> to a later \<open>n\<close> when \<open>backoff_rate \<ge> 1\<close>.
\<close>

theorem wait_for_nonneg_nondecreasing:
  fixes interval backoff_rate :: "'a::linordered_idom"
  assumes "0 \<le> interval" and "0 \<le> backoff_rate"
  shows "wait_for interval backoff_rate n = max 0 (interval * backoff_rate ^ n)
       \<and> 0 \<le> wait_for interval backoff_rate n
       \<and> 0 \<le> backoff_sleep interval backoff_rate n d
       \<and> (1 \<le> backoff_rate \<and> m \<le> n \<longrightarrow>
            wait_for interval backoff_rate m \<le> wait_for interval backoff_rate n
          \<and> backoff_sleep interval backoff_rate m d \<le> backoff_sleep interval backoff_rate n d)"
proof -
  have a: "wait_for interval backoff_rate n = max 0 (interval * backoff_rate ^ n)"
    by (simp add: wait_for_def)
  have b: "0 \<le> wait_for interval backoff_rate n"
    by (rule wait_for_nonneg)
  have c: "0 \<le> backoff_sleep interval backoff_rate n d"
    using b by (simp add: backoff_sleep_def)
  have d: "wait_for interval backoff_rate m \<le> wait_for interval backoff_rate n"
    if "1 \<le> backoff_rate" "m \<le> n"
    using assms(1) that by (rule wait_for_mono)
  have e: "backoff_sleep interval backoff_rate m d \<le> backoff_sleep interval backoff_rate n d"
    if "1 \<le> backoff_rate" "m \<le> n"
    using d[OF that] by (simp add: backoff_sleep_def)
  from a b c d e show ?thesis by blast
qed

theorem wait_for_nonneg_nondecreasing_witness:
  "(0::int) \<le> 1 \<and> (0::int) \<le> 2 \<and> (1::int) \<le> 2 \<and> (1::nat) \<le> 3
   \<and> wait_for (1::int) 2 1 = 2 \<and> wait_for (1::int) 2 3 = 8
   \<and> wait_for (1::int) 2 1 \<le> wait_for (1::int) 2 3
   \<and> backoff_sleep (1::int) 2 1 0 \<le> backoff_sleep (1::int) 2 3 0"
proof -
  have i: "(0::int) \<le> 1" and b: "(0::int) \<le> 2"
    by simp_all
  from wait_for_nonneg_nondecreasing [OF i b, of 3 0 1] show ?thesis
    by (simp add: wait_for_def)
qed

section \<open>Properties of the StopWatch\<close>

lemma timestamps_set_init: "StopWatch_init d = Inr w \<Longrightarrow> timestamps_set w"
  by (auto simp: StopWatch_init_def timestamps_set_def split: if_splits)

lemma timestamps_set_call: "timestamps_set w \<Longrightarrow> timestamps_set (call w c)"
  by (cases c)
     (auto simp: call_def start_def stop_def restart_def resume_def timestamps_set_def
           split: if_splits)

lemma timestamps_set_calls: "timestamps_set w \<Longrightarrow> timestamps_set (calls w cs)"
  unfolding calls_def
  by (induction cs arbitrary: w) (simp_all add: timestamps_set_call)

lemma elapsed_started:
  assumes "state w = Some STARTED" and "started_at w = Some t"
  shows "elapsed w now maximum =
           Inr (case maximum of None \<Rightarrow> max 0 (now - t)
                | Some m \<Rightarrow> if max 0 (now - t) > m then max 0 m else max 0 (now - t))"
  using assms by (simp add: elapsed_def delta_seconds_def split: option.splits)

lemma elapsed_stopped:
  assumes "state w = Some STOPPED" and "started_at w = Some t" and "stopped_at w = Some u"
  shows "elapsed w now maximum =
           Inr (case maximum of None \<Rightarrow> max 0 (u - t)
                | Some m \<Rightarrow> if max 0 (u - t) > m then max 0 m else max 0 (u - t))"
  using assms by (simp add: elapsed_def delta_seconds_def split: option.splits)

text \<open>
  C10. A watch made by \<^verbatim>\<open>StopWatch(duration)\<close> and driven by any calls of start, stop,
  restart and resume, with any clock readings, that is in the started or stopped state:
  \<^verbatim>\<open>elapsed(maximum)\<close> returns (it does not raise) a number that is not negative; with
  a maximum it is at most \<open>max(0, maximum)\<close>; and when the watch is started and the clock
  reading of the query is not after the reading taken at start, the result is 0.
\<close>

theorem elapsed_nonneg_capped:
  assumes "StopWatch_init d = Inr w0"
    and "w = calls w0 cs"
    and "state w = Some STARTED \<or> state w = Some STOPPED"
  shows "\<exists>e. elapsed w now maximum = Inr e \<and> 0 \<le> e
           \<and> (\<forall>m. maximum = Some m \<longrightarrow> e \<le> max 0 m)
           \<and> (\<forall>t. state w = Some STARTED \<and> started_at w = Some t \<and> now \<le> t \<longrightarrow> e = 0)"
proof -
  have ts: "timestamps_set w"
    using assms(1,2) by (simp add: timestamps_set_init timestamps_set_calls)
  from assms(3) show ?thesis
  proof
    assume st: "state w = Some STARTED"
    with ts obtain t where t: "started_at w = Some t"
      by (auto simp: timestamps_set_def)
    show ?thesis
      unfolding elapsed_started[OF st t] using st t
      by (cases maximum) auto
  next
    assume st: "state w = Some STOPPED"
    with ts obtain t u where tu: "started_at w = Some t" "stopped_at w = Some u"
      by (auto simp: timestamps_set_def)
    show ?thesis
      unfolding elapsed_stopped[OF st tu] using st
      by (cases maximum) auto
  qed
qed

theorem elapsed_nonneg_capped_witness:
  "StopWatch_init None
     = Inr \<lparr>duration = None, started_at = None, stopped_at = None, state = None\<rparr>
   \<and> state (calls \<lparr>duration = None, started_at = None, stopped_at = None, state = None\<rparr>
              [Start 10]) = Some STARTED
   \<and> elapsed (calls \<lparr>duration = None, started_at = None, stopped_at = None, state = None\<rparr>
              [Start 10]) 7 (Some 5) = Inr 0
   \<and> elapsed (calls \<lparr>duration = None, started_at = None, stopped_at = None, state = None\<rparr>
              [Start 10, Stop 12, Resume, Stop 99]) 40 (Some (- 3)) = Inr 0
   \<and> elapsed (calls \<lparr>duration = None, started_at = None, stopped_at = None, state = None\<rparr>
              [Start 10, Stop 12]) 40 None = Inr 2"
proof -
  let ?w0 = "\<lparr>duration = None, started_at = None, stopped_at = None, state = None\<rparr>"
  have i: "StopWatch_init None = Inr ?w0"
    by (simp add: StopWatch_init_def)
  have st: "state (calls ?w0 [Start 10]) = Some STARTED \<or> state (calls ?w0 [Start 10]) = Some STOPPED"
    by (simp add: calls_def call_def start_def)
  from elapsed_nonneg_capped [OF i refl st, of 7 "Some 5"] show ?thesis
    by (simp add: StopWatch_init_def calls_def call_def start_def stop_def resume_def
          elapsed_def delta_seconds_def)
qed

section \<open>Keyword arguments: what the pops leave and what they return\<close>

lemma map_of_filter_key:
  "map_of (filter (\<lambda>p. fst p \<noteq> k) kw) k' = (if k' = k then None else map_of kw k')"
  by (induction kw) auto

lemma fst_pop: "fst (pop k d kw) = get k d kw"
  by (simp add: pop_def get_def split: option.splits)

lemma get_pop: "get k' d' (snd (pop k d kw)) = (if k' = k then d' else get k' d' kw)"
  by (auto simp: pop_def get_def map_of_filter_key split: option.splits)

lemma has_key_pop: "has_key k' (snd (pop k d kw)) = (k' \<noteq> k \<and> has_key k' kw)"
  by (auto simp: pop_def has_key_def map_of_eq_None_iff split: option.splits)

lemma has_key_append: "has_key k' (kw @ [(k, v)]) = (k' = k \<or> has_key k' kw)"
  by (auto simp: has_key_def)

lemma has_key_map_of: "has_key k kw = (map_of kw k \<noteq> None)"
  by (simp add: has_key_def map_of_eq_None_iff)

lemma get_absent: "\<not> has_key k kw \<Longrightarrow> get k d kw = d"
  by (simp add: has_key_map_of get_def)

lemma get_append:
  "get k' d (kw @ [(k, v)]) = (if has_key k' kw then get k' d kw else if k' = k then v else d)"
  by (auto simp: get_def has_key_map_of map_of_append map_add_def split: option.splits)

text \<open>
  A name stays in \<^verbatim>\<open>kwargs\<close> when it is none of the twelve option names, and also when
  it is \<^verbatim>\<open>interval\<close> or \<^verbatim>\<open>backoff_rate\<close> passed together with \<^verbatim>\<open>delay_on_retry\<close>.
\<close>

lemma has_key_leftover:
  "has_key k (snd (pop_options kwargs)) =
     (has_key k kwargs \<and> k \<notin> set recognized
      \<or> has_key ''delay_on_retry'' kwargs \<and> has_key k kwargs
          \<and> (k = ''interval'' \<or> k = ''backoff_rate''))"
  by (auto simp: pop_options_def Let_def split_def has_key_pop has_key_append recognized_def)

lemma opt_interval_pop_options:
  "opt_interval (fst (pop_options kwargs)) =
     (if has_key ''delay_on_retry'' kwargs then PNone else get ''interval'' (PInt 1) kwargs)"
  by (simp add: pop_options_def Let_def split_def fst_pop get_append get_absent)

lemma opt_delay_pop_options:
  "opt_delay_on_retry (fst (pop_options kwargs)) =
     (if has_key ''delay_on_retry'' kwargs then get ''delay_on_retry'' (PBool True) kwargs
      else PBool False)"
  by (simp add: pop_options_def Let_def split_def fst_pop get_pop get_append get_absent)

lemma opt_ignore_pop_options:
  "opt_ignore_exit_code (fst (pop_options kwargs)) =
     fst (normalize_check_exit_code (get ''check_exit_code'' (PList [0]) kwargs))"
  by (simp add: pop_options_def Let_def split_def fst_pop get_pop get_append get_absent)

lemma opt_attempts_pop_options:
  "opt_attempts (fst (pop_options kwargs)) = get ''attempts'' (PInt 1) kwargs"
  by (simp add: pop_options_def Let_def split_def fst_pop get_pop get_append get_absent)

lemma opt_loglevel_pop_options:
  "opt_loglevel (fst (pop_options kwargs)) = get ''loglevel'' (PInt 10) kwargs"
  by (simp add: pop_options_def Let_def split_def fst_pop get_pop get_append get_absent)

lemma as_int_truthy: "as_int v = Some i \<Longrightarrow> truthy v = (i \<noteq> 0)"
  by (cases v) (auto split: if_splits)

lemma opt_backoff_rate_pop_options:
  "opt_backoff_rate (fst (pop_options kwargs)) =
     (if has_key ''delay_on_retry'' kwargs then None
      else Some (get ''backoff_rate'' (PInt 2) kwargs))"
  by (simp add: pop_options_def Let_def split_def fst_pop get_pop get_append get_absent)

lemma execute_options_Inr:
  "execute_options kwargs = Inr opts \<Longrightarrow> opts = fst (pop_options kwargs)"
  by (auto simp: execute_options_def split_def Let_def split: if_splits)

section \<open>One attempt and the loop\<close>

lemmas run_defs =
  execute_def execute_under_def execute_options_def pop_options_def has_key_def pop_def get_def
  normalize_check_exit_code_def initial_def attempt_def emit_def on_execute_def
  on_completion_def exit_code_rejected_def wait_for_def time_sleep_def sleep_max_def Let_def

lemma sig_end_unbound:
  "\<not> bound (on_timeout_locals @ execute_locals @ module_globals) ''sig_end''"
  by (simp add: bound_def on_timeout_locals_def execute_locals_def module_globals_def)

lemma on_timeout_eq: "on_timeout proc s = emit (TimerThreadError proc (NameError ''sig_end'')) s"
  by (simp add: on_timeout_def sig_end_unbound)

text \<open>
  Disarming is guarded by \<^verbatim>\<open>if shared_data[1]\<close>: with no timer ever started,
  \<^verbatim>\<open>on_completion\<close> does nothing; with one, it cancels and sends no signal.
\<close>

lemma on_completion_unarmed: "shared_data1 s = None \<Longrightarrow> on_completion proc s = s"
  by (simp add: on_completion_def)

lemma on_completion_armed:
  "shared_data1 s = Some t \<Longrightarrow> trace (on_completion proc s) = trace s @ [TimerCancel t]"
  by (simp add: on_completion_def emit_def)

text \<open>
  An attempt only adds effects: never one of the two sleeps of the loop, never a signal,
  and the sleep of \<^verbatim>\<open>on_execute\<close> only when \<^verbatim>\<open>interval\<close> is true.
\<close>

lemma attempt_events:
  "\<exists>es. trace (snd (attempt sleep opts cmd env s)) = trace s @ es \<and>
     (\<forall>e\<in>set es. e \<noteq> JitterSleep \<and> e \<noteq> SleepZero \<and> (\<forall>p. e \<noteq> SendSignal p) \<and>
        (\<forall>w. e = BackoffSleep w \<longrightarrow> truthy (opt_interval opts)))"
  by (auto simp: attempt_def on_execute_def on_completion_def on_timeout_eq emit_def
        exit_code_rejected_def Let_def
      split: popen.splits communicate.splits sum.splits option.splits pyval.splits
        bool.splits if_splits)

lemma loop_events:
  assumes "\<And>s. \<exists>es. trace (snd (attempt sleep opts cmd env s)) = trace s @ es \<and> (\<forall>e\<in>set es. P e)"
    and "P SleepZero"
    and "truthy (opt_delay_on_retry opts) \<Longrightarrow> P JitterSleep"
  shows "\<exists>es. trace (snd (attempts_loop sleep opts cmd env a s)) = trace s @ es \<and> (\<forall>e\<in>set es. P e)"
  using assms
proof (induction sleep opts cmd env a s rule: attempts_loop.induct)
  case (1 sleep opts cmd env attempts s)
  obtain r s1 where a: "attempt sleep opts cmd env s = (r, s1)"
    by force
  with "1.prems"(1)[of s] obtain es1 where es1: "trace s1 = trace s @ es1" "\<forall>e\<in>set es1. P e"
    by auto
  let ?s2 = "emit SleepZero (if truthy (opt_delay_on_retry opts) then emit JitterSleep s1 else s1)"
  show ?case
  proof (cases "attempts > 0")
    case False
    then show ?thesis by (simp add: attempts_loop.simps[of _ _ _ _ attempts])
  next
    case pos: True
    show ?thesis
    proof (cases r)
      case (Inr result)
      with pos a es1 "1.prems"(2) show ?thesis
        by (simp add: attempts_loop.simps[of _ _ _ _ attempts] emit_def)
    next
      case (Inl err)
      show ?thesis
      proof (cases "caught err \<and> attempts - 1 \<noteq> 0")
        case False
        with pos a es1 Inl "1.prems"(2) show ?thesis
          by (auto simp add: attempts_loop.simps[of _ _ _ _ attempts] emit_def)
      next
        case True
        from "1.IH"[OF pos a[symmetric] Inl True "1.prems"]
        obtain es2 where es2:
          "trace (snd (attempts_loop sleep opts cmd env (attempts - 1) ?s2)) = trace ?s2 @ es2"
          "\<forall>e\<in>set es2. P e"
          by auto
        have "trace ?s2 = trace s @ es1 @
                (if truthy (opt_delay_on_retry opts) then [JitterSleep] else []) @ [SleepZero]"
          using es1 by (simp add: emit_def)
        with es2 pos a Inl True es1 "1.prems"(2,3) show ?thesis
          by (auto simp add: attempts_loop.simps[of _ _ _ _ attempts])
      qed
    qed
  qed
qed

lemma execute_events:
  assumes "\<And>s opts. \<exists>es. trace (snd (attempt sleep opts cmd env s)) = trace s @ es
              \<and> (\<forall>e\<in>set es. P opts e)"
    and "\<And>opts. P opts SleepZero"
    and "\<And>opts. truthy (opt_delay_on_retry opts) \<Longrightarrow> P opts JitterSleep"
    and "e \<in> set (trace (snd (execute_under sleep cmd kwargs env)))"
  shows "\<exists>opts. execute_options kwargs = Inr opts \<and> P opts e"
proof (cases "execute_options kwargs")
  case (Inl err)
  with assms(4) show ?thesis by (simp add: execute_under_def initial_def)
next
  case (Inr opts)
  show ?thesis
  proof (cases "as_int (opt_attempts opts)")
    case None
    with Inr assms(4) show ?thesis by (simp add: execute_under_def initial_def)
  next
    case (Some a)
    from loop_events[of sleep opts cmd env "P opts" a initial, OF assms(1) assms(2) assms(3)]
    obtain es where "trace (snd (attempts_loop sleep opts cmd env a initial)) = trace initial @ es"
      "\<forall>e\<in>set es. P opts e"
      by blast
    with Inr Some assms(4) show ?thesis
      by (auto simp: execute_under_def initial_def)
  qed
qed

lemma backoff_sleep_needs_interval:
  assumes "BackoffSleep w \<in> set (trace (snd (execute_under sleep cmd kwargs env)))"
  shows "\<exists>opts. execute_options kwargs = Inr opts \<and> backoff_wait_active opts"
proof -
  have "\<exists>opts. execute_options kwargs = Inr opts \<and>
          (\<forall>w'. BackoffSleep w = BackoffSleep w' \<longrightarrow> truthy (opt_interval opts))"
    using attempt_events[of sleep _ cmd env]
    by (intro execute_events[where
            P = "\<lambda>opts e. \<forall>w'. e = BackoffSleep w' \<longrightarrow> truthy (opt_interval opts)",
          OF _ _ _ assms]) (fastforce+)
  then show ?thesis by (simp add: backoff_wait_active_def)
qed

lemma jitter_sleep_needs_delay_on_retry:
  assumes "JitterSleep \<in> set (trace (snd (execute_under sleep cmd kwargs env)))"
  shows "\<exists>opts. execute_options kwargs = Inr opts \<and> jitter_active opts"
proof -
  have "\<exists>opts. execute_options kwargs = Inr opts \<and>
          (JitterSleep = JitterSleep \<longrightarrow> truthy (opt_delay_on_retry opts))"
    using attempt_events[of sleep _ cmd env]
    by (intro execute_events[where
            P = "\<lambda>opts e. e = JitterSleep \<longrightarrow> truthy (opt_delay_on_retry opts)",
          OF _ _ _ assms]) (fastforce+)
  then show ?thesis by (simp add: jitter_active_def)
qed

lemma no_signal_sent: "SendSignal p \<notin> set (trace (snd (execute_under sleep cmd kwargs env)))"
proof
  assume a: "SendSignal p \<in> set (trace (snd (execute_under sleep cmd kwargs env)))"
  have "\<exists>opts. execute_options kwargs = Inr opts \<and> (\<forall>q. SendSignal p \<noteq> SendSignal q)"
    using attempt_events[of sleep _ cmd env]
    by (intro execute_events[where P = "\<lambda>opts e. \<forall>q. e \<noteq> SendSignal q", OF _ _ _ a])
       (fastforce+)
  then show False by simp
qed

text \<open>
  The counter \<^verbatim>\<open>shared_data[0]\<close> and the sleeps of \<^verbatim>\<open>on_execute\<close>, with the backoff wait
  on: what one call, one attempt and the whole loop add to the \<^verbatim>\<open>Popen\<close> calls and
  the sleeps, and that the counter stays \<open>tries\<close> of the number of \<^verbatim>\<open>Popen\<close> calls made.
\<close>

lemma on_execute_state_after:
  assumes "as_int (opt_interval opts) = Some i" and "i \<noteq> 0"
    and "opt_backoff_rate opts = Some br" and "as_int br = Some b"
  shows "popen_calls (state_after (on_execute sleep opts k s)) = popen_calls s"
    and "shared_data0 (state_after (on_execute sleep opts k s)) =
           (if shared_data0 s = 0 \<or> sleep k (wait_for i b (shared_data0 s)) = None
            then Suc (shared_data0 s) else shared_data0 s)"
    and "filter spawn_or_wait (trace (state_after (on_execute sleep opts k s))) =
           filter spawn_or_wait (trace s) @
           (if 0 < shared_data0 s then [BackoffSleep (wait_for i b (shared_data0 s))] else [])"
  using assms as_int_truthy[OF assms(1)]
  by (simp_all add: on_execute_def state_after_def emit_def Let_def split: option.splits)


lemma on_completion_keeps:
  "popen_calls (on_completion k s) = popen_calls s"
  "shared_data0 (on_completion k s) = shared_data0 s"
  "filter spawn_or_wait (trace (on_completion k s)) = filter spawn_or_wait (trace s)"
  by (simp_all add: on_completion_def emit_def split: option.splits)

lemma on_timeout_keeps:
  "popen_calls (on_timeout k s) = popen_calls s"
  "shared_data0 (on_timeout k s) = shared_data0 s"
  "filter spawn_or_wait (trace (on_timeout k s)) = filter spawn_or_wait (trace s)"
  by (simp_all add: on_timeout_def emit_def)

lemma attempt_state:
  assumes "as_int (opt_loglevel opts) = Some level"
  shows "snd (attempt sleep opts cmd env s) =
     (case env (popen_calls s) of
        PopenRaises e \<Rightarrow> emit (Popen (popen_calls s)) (s\<lparr>popen_calls := Suc (popen_calls s)\<rparr>)
      | Proc x c \<Rightarrow>
          (case on_execute sleep opts (popen_calls s)
                  (emit (Popen (popen_calls s)) (s\<lparr>popen_calls := Suc (popen_calls s)\<rparr>)) of
             Inl (e, s2) \<Rightarrow> s2
           | Inr s2 \<Rightarrow>
               on_completion (popen_calls s)
                 (if shared_data1 s2 = Some (popen_calls s) \<and> x
                  then on_timeout (popen_calls s) s2 else s2)))"
  using assms
  by (simp add: attempt_def Let_def
      split: popen.splits sum.splits prod.splits communicate.splits bool.splits)

lemma attempt_tries:
  assumes "as_int (opt_interval opts) = Some i" and "i \<noteq> 0"
    and "opt_backoff_rate opts = Some br" and "as_int br = Some b"
    and "as_int (opt_loglevel opts) = Some level"
    and "shared_data0 s = tries sleep env i b (popen_calls s)"
  shows "popen_calls (snd (attempt sleep opts cmd env s)) = Suc (popen_calls s)
       \<and> shared_data0 (snd (attempt sleep opts cmd env s))
           = tries sleep env i b (Suc (popen_calls s))
       \<and> filter spawn_or_wait (trace (snd (attempt sleep opts cmd env s))) =
           filter spawn_or_wait (trace s) @
           Popen (popen_calls s) #
             (if created (env (popen_calls s)) \<and> 0 < tries sleep env i b (popen_calls s)
              then [BackoffSleep (max 0 (i * b ^ tries sleep env i b (popen_calls s)))] else [])"
proof -
  let ?k = "popen_calls s"
  let ?s1 = "emit (Popen ?k) (s\<lparr>popen_calls := Suc ?k\<rparr>)"
  note oe = on_execute_state_after[OF assms(1-4), of sleep ?k ?s1]
  have s1: "popen_calls ?s1 = Suc ?k" "shared_data0 ?s1 = tries sleep env i b ?k"
    "filter spawn_or_wait (trace ?s1) = filter spawn_or_wait (trace s) @ [Popen ?k]"
    using assms(6) by (simp_all add: emit_def)
  show ?thesis
  proof (cases "env ?k")
    case (PopenRaises e)
    then show ?thesis
      using s1 by (simp add: attempt_state[OF assms(5)])
  next
    case (Proc x c)
    have st: "snd (attempt sleep opts cmd env s) =
        (case on_execute sleep opts ?k ?s1 of
           Inl (e, s2) \<Rightarrow> s2
         | Inr s2 \<Rightarrow> on_completion ?k (if shared_data1 s2 = Some ?k \<and> x then on_timeout ?k s2 else s2))"
      by (simp add: attempt_state[OF assms(5)] Proc)
    have keep: "popen_calls (snd (attempt sleep opts cmd env s)) = popen_calls (state_after (on_execute sleep opts ?k ?s1))"
      "shared_data0 (snd (attempt sleep opts cmd env s)) = shared_data0 (state_after (on_execute sleep opts ?k ?s1))"
      "filter spawn_or_wait (trace (snd (attempt sleep opts cmd env s)))
         = filter spawn_or_wait (trace (state_after (on_execute sleep opts ?k ?s1)))"
      unfolding st state_after_def
      by (simp_all add: on_completion_keeps on_timeout_keeps split: sum.splits prod.splits)
    show ?thesis
      unfolding keep oe by (simp add: s1 Proc Let_def wait_for_def)
  qed
qed


lemma emit_keeps:
  "popen_calls (emit e s) = popen_calls s"
  "shared_data0 (emit e s) = shared_data0 s"
  "\<not> spawn_or_wait e \<Longrightarrow> filter spawn_or_wait (trace (emit e s)) = filter spawn_or_wait (trace s)"
  by (simp_all add: emit_def)

lemma loop_tries:
  assumes "as_int (opt_interval opts) = Some i" and "i \<noteq> 0"
    and "opt_backoff_rate opts = Some br" and "as_int br = Some b"
    and "shared_data0 s = tries sleep env i b (popen_calls s)"
  shows "popen_calls s \<le> popen_calls (snd (attempts_loop sleep opts cmd env a s))
       \<and> filter spawn_or_wait (trace (snd (attempts_loop sleep opts cmd env a s))) =
           filter spawn_or_wait (trace s) @
           concat (map (\<lambda>k. Popen k #
                 (if created (env k) \<and> 0 < tries sleep env i b k
                  then [BackoffSleep (max 0 (i * b ^ tries sleep env i b k))] else []))
              [popen_calls s ..< popen_calls (snd (attempts_loop sleep opts cmd env a s))])"
  using assms
proof (induction sleep opts cmd env a s rule: attempts_loop.induct)
  case (1 sleep opts cmd env attempts s)
  let ?blk = "\<lambda>k. Popen k #
                 (if created (env k) \<and> 0 < tries sleep env i b k
                  then [BackoffSleep (max 0 (i * b ^ tries sleep env i b k))] else [])"
  let ?k = "popen_calls s"
  obtain r s1 where a: "attempt sleep opts cmd env s = (r, s1)"
    by force
  show ?case
  proof (cases "attempts > 0")
    case False
    then show ?thesis by (simp add: attempts_loop.simps[of _ _ _ _ attempts])
  next
    case pos: True
    show ?thesis
    proof (cases "as_int (opt_loglevel opts)")
      case None
      then have "attempt sleep opts cmd env s = (Inl TypeError, s)"
        by (simp add: attempt_def)
      with pos show ?thesis
        by (simp add: attempts_loop.simps[of _ _ _ _ attempts] emit_keeps)
    next
      case (Some level)
      from attempt_tries[OF "1.prems"(1-4) Some "1.prems"(5), of cmd] a
      have s1: "popen_calls s1 = Suc ?k"
        "shared_data0 s1 = tries sleep env i b (Suc ?k)"
        "filter spawn_or_wait (trace s1) = filter spawn_or_wait (trace s) @ ?blk ?k"
        by simp_all
      let ?s2 = "emit SleepZero (if truthy (opt_delay_on_retry opts) then emit JitterSleep s1 else s1)"
      have s2: "popen_calls ?s2 = Suc ?k"
        "shared_data0 ?s2 = tries sleep env i b (popen_calls ?s2)"
        "filter spawn_or_wait (trace ?s2) = filter spawn_or_wait (trace s) @ ?blk ?k"
        using s1 by (simp_all add: emit_keeps)
      have stop: "popen_calls s \<le> popen_calls (emit SleepZero s1)
          \<and> filter spawn_or_wait (trace (emit SleepZero s1)) =
              filter spawn_or_wait (trace s) @
              concat (map ?blk [popen_calls s ..< popen_calls (emit SleepZero s1)])"
        using s1 by (simp add: emit_keeps)
      show ?thesis
      proof (cases r)
        case (Inr result)
        with pos a stop show ?thesis
          by (simp add: attempts_loop.simps[of _ _ _ _ attempts])
      next
        case (Inl err)
        show ?thesis
        proof (cases "caught err \<and> attempts - 1 \<noteq> 0")
          case False
          with pos a Inl stop show ?thesis
            by (auto simp add: attempts_loop.simps[of _ _ _ _ attempts])
        next
          case True
          let ?L = "attempts_loop sleep opts cmd env (attempts - 1) ?s2"
          from "1.IH"[OF pos a[symmetric] Inl True "1.prems"(1-4) s2(2)]
          have ih: "popen_calls ?s2 \<le> popen_calls (snd ?L)"
            "filter spawn_or_wait (trace (snd ?L)) =
               filter spawn_or_wait (trace ?s2) @ concat (map ?blk [popen_calls ?s2 ..< popen_calls (snd ?L)])"
            by simp_all
          have eq: "attempts_loop sleep opts cmd env attempts s = ?L"
            using pos a Inl True by (simp add: attempts_loop.simps[of _ _ _ _ attempts])
          have le: "Suc ?k \<le> popen_calls (snd ?L)"
            using ih(1) s2(1) by simp
          have up: "[?k ..< popen_calls (snd ?L)] = ?k # [Suc ?k ..< popen_calls (snd ?L)]"
            using le by (simp add: upt_conv_Cons)
          show ?thesis
            unfolding eq using le ih(2) unfolding s2 up
            by simp
        qed
      qed
    qed
  qed
qed


lemma tries_all_created:
  "(\<forall>j<k. created (env j) \<and> (j = 0 \<or> sleep j (max 0 (i * b ^ j)) = None))
     \<Longrightarrow> tries sleep env i b k = k"
  by (induction k) (auto simp: Let_def wait_for_def)

lemma tries_le: "tries sleep env i b k \<le> k"
  by (induction k) (auto simp: Let_def)

lemma attempt_sleep_raises:
  assumes "as_int (opt_interval opts) = Some i" and "i \<noteq> 0"
    and "opt_backoff_rate opts = Some br" and "as_int br = Some b"
    and "as_int (opt_loglevel opts) = Some level"
    and "env (popen_calls s) = Proc x c" and "0 < shared_data0 s"
    and "sleep (popen_calls s) (max 0 (i * b ^ shared_data0 s)) = Some e"
  shows "fst (attempt sleep opts cmd env s) = Inl e"
  using assms as_int_truthy[OF assms(1)]
  by (simp add: attempt_def on_execute_def emit_def wait_for_def Let_def)

text \<open>
  On CPython a first wait of \<open>2 * 10^10\<close> seconds makes \<^verbatim>\<open>time.sleep\<close> raise
  OverflowError, which line 218 does not catch: the second attempt ends the call.
\<close>

lemma backoff_sleep_overflow:
  "execute [''false''] [(''attempts'', PInt 3), (''interval'', PInt 10000000000)] (always_exits 1)
   = (Inl OverflowError,
      \<lparr>shared_data0 = 1, shared_data1 = None, shared_data2 = None, popen_calls = 2,
        trace = [Popen 0, SleepZero, Popen 1, BackoffSleep 20000000000, SleepZero]\<rparr>)"
  by (simp add: run_defs attempts_loop.simps always_exits_def)

lemma first_attempt_ignoring_exit_code:
  assumes "opt_ignore_exit_code opts \<and> as_int (opt_loglevel opts) = Some level"
    and "env 0 = Proc x (Returns stdout stderr returncode)"
  shows "fst (attempt sleep opts cmd env initial) = Inr (stdout, stderr)"
    and "popen_calls (snd (attempt sleep opts cmd env initial)) = 1"
  using assms
  by (simp_all add: attempt_def on_execute_def on_completion_def on_timeout_eq emit_def
        exit_code_rejected_def initial_def Let_def split: option.splits)

text \<open>
  The stopwatch calls of \<^verbatim>\<open>execute\<close> (\<^verbatim>\<open>watch.restart()\<close> on line 180,
  \<^verbatim>\<open>watch.elapsed()\<close> on line 207) never raise, which is why the loop above leaves
  them out.
\<close>

lemma restart_elapsed_total:
  assumes "timestamps_set w"
  shows "\<exists>w' e. restart w now1 now2 = Inr w' \<and> state w' = Some STARTED \<and> timestamps_set w'
           \<and> elapsed w' now3 None = Inr e"
  using assms
  by (auto simp: restart_def stop_def start_def timestamps_set_def elapsed_def delta_seconds_def
      split: if_splits option.splits)

text \<open>Every \<^verbatim>\<open>attempts\<close> below 1 skips the loop; \<^verbatim>\<open>retry\<close> rejects every \<^verbatim>\<open>retries\<close> below 1.\<close>

lemma execute_attempts_below_1:
  "a < 1 \<Longrightarrow> execute cmd [(''attempts'', PInt a)] env = (Inr None, initial)"
  by (simp add: run_defs attempts_loop.simps)

lemma retry_rejects:
  "retries < 1 \<Longrightarrow>
     retry installed exceptions interval retries backoff_rate
       = Inl (if ''_'' \<in> set installed then ValueError else NameError ''_'')"
  by (simp add: retry_def bound_def retry_locals_def module_globals_def)

section \<open>The claims about \<^verbatim>\<open>execute\<close> and \<^verbatim>\<open>retry\<close>\<close>

text \<open>
  C1. A command that leaves return code 1 on every run, called with \<^verbatim>\<open>attempts=3\<close> and
  \<^verbatim>\<open>check_exit_code=[0]\<close>: \<^verbatim>\<open>Popen\<close> is called exactly three times and the call raises
  ProcessExecutionError with exit code 1, carrying the output of the third run; the
  failures of the first two runs do not reach the caller.
\<close>

theorem execute_exit_1_three_attempts:
  assumes "\<forall>k. env k = Proc (x k) (Returns (out k) (err k) 1)"
  shows "execute cmd [(''attempts'', PInt 3), (''check_exit_code'', PList [0])] env
         = (Inl (ProcessExecutionError 1 (out 2) (err 2) cmd),
            \<lparr>shared_data0 = 3, shared_data1 = None, shared_data2 = None, popen_calls = 3,
             trace = [Popen 0, SleepZero, Popen 1, BackoffSleep 2, SleepZero,
                      Popen 2, BackoffSleep 4, SleepZero]\<rparr>)"
  using assms
  by (simp add: run_defs attempts_loop.simps numeral_2_eq_2)

theorem execute_exit_1_three_attempts_witness:
  "(\<forall>k. always_exits 1 k = Proc False (Returns [] [] 1))
   \<and> execute [''false''] [(''attempts'', PInt 3), (''check_exit_code'', PList [0])]
       (always_exits 1)
     = (Inl (ProcessExecutionError 1 [] [] [''false'']),
        \<lparr>shared_data0 = 3, shared_data1 = None, shared_data2 = None, popen_calls = 3,
          trace = [Popen 0, SleepZero, Popen 1, BackoffSleep 2, SleepZero,
                   Popen 2, BackoffSleep 4, SleepZero]\<rparr>)"
proof -
  have h: "\<forall>k. always_exits 1 k = Proc False (Returns [] [] 1)"
    by (simp add: always_exits_def)
  from execute_exit_1_three_attempts
         [of "always_exits 1" "\<lambda>k. False" "\<lambda>k. []" "\<lambda>k. []" "[''false'']"] h
  show ?thesis by simp
qed

text \<open>
  C2. The claim asks for a configuration error when \<^verbatim>\<open>attempts\<close> is below 1. The code
  has no such check: with \<^verbatim>\<open>attempts=0\<close> the loop body never runs, nothing is spawned,
  and \<^verbatim>\<open>execute\<close> returns \<^verbatim>\<open>None\<close> without raising.
\<close>

theorem execute_attempts_0_returns_None:
  "execute cmd [(''attempts'', PInt 0)] env = (Inr None, initial)
   \<and> popen_calls initial = 0 \<and> trace initial = []"
  by (simp add: run_defs attempts_loop.simps)

text \<open>
  C3, as claimed, fails: with the defaults \<^verbatim>\<open>interval=1\<close> and \<^verbatim>\<open>backoff_rate=2\<close> the
  wait for the second attempt is 2 seconds, not \<open>interval * backoff_rate ^ 0 = 1\<close>.
\<close>

theorem second_attempt_wait_is_not_interval:
  "execute_options [(''attempts'', PInt 2)]
     = Inr \<lparr>opt_interval = PInt 1, opt_backoff_rate = Some (PInt 2),
            opt_check_exit_code = PList [0], opt_ignore_exit_code = False,
            opt_delay_on_retry = PBool False, opt_attempts = PInt 2,
            opt_loglevel = PInt 10, opt_timeout = PNone\<rparr>
   \<and> trace (snd (execute [''false''] [(''attempts'', PInt 2)] (always_exits 1)))
     = [Popen 0, SleepZero, Popen 1, BackoffSleep 2, SleepZero]
   \<and> BackoffSleep (1 * 2 ^ 0)
       \<notin> set (trace (snd (execute [''false''] [(''attempts'', PInt 2)] (always_exits 1))))"
  by (simp add: run_defs attempts_loop.simps always_exits_def)


text \<open>
  C3, amended. In the interval-based wait (\<^verbatim>\<open>delay_on_retry\<close> not passed, \<^verbatim>\<open>interval\<close>
  a nonzero number \<open>i\<close>, \<^verbatim>\<open>backoff_rate\<close> a number \<open>b\<close>), for every command, every
  other option and every behaviour of the platform: among the \<^verbatim>\<open>Popen\<close> calls and the
  \<^verbatim>\<open>time.sleep\<close> calls of \<^verbatim>\<open>on_execute\<close>, in the order they are made, \<^verbatim>\<open>Popen\<close> call
  \<open>k\<close> is followed by a sleep exactly when it gave a process and the counter
  \<^verbatim>\<open>shared_data[0]\<close> is above 0, and the duration asked for is
  \<open>max(0, i * b ^ shared_data[0])\<close>. The counter is the number of earlier
  \<^verbatim>\<open>on_execute\<close> calls that got past their sleep (\<open>tries\<close>): a \<^verbatim>\<open>Popen\<close> call that
  raises and a sleep that raises do not count. It is 0 at the first \<^verbatim>\<open>Popen\<close> call, so
  there is no wait in the first attempt; when every earlier \<^verbatim>\<open>Popen\<close> call gave a
  process and every earlier sleep returned it is \<open>k\<close> at \<^verbatim>\<open>Popen\<close> call \<open>k\<close>, so the wait
  of attempt \<open>n + 2\<close> is \<open>max(0, i * b ^ (n + 1))\<close>: the exponent starts at 1 for the
  second attempt.
\<close>

theorem backoff_exponent_is_tries_counter:
  assumes "\<not> has_key ''delay_on_retry'' kwargs"
    and "as_int (get ''interval'' (PInt 1) kwargs) = Some i" and "i \<noteq> 0"
    and "as_int (get ''backoff_rate'' (PInt 2) kwargs) = Some b"
  shows "filter spawn_or_wait (trace (snd (execute_under sleep cmd kwargs env)))
         = concat (map (\<lambda>k. Popen k #
                 (if created (env k) \<and> 0 < tries sleep env i b k
                  then [BackoffSleep (max 0 (i * b ^ tries sleep env i b k))] else []))
              [0 ..< popen_calls (snd (execute_under sleep cmd kwargs env))])
       \<and> tries sleep env i b 0 = 0
       \<and> ((\<forall>j<k. created (env j) \<and> (j = 0 \<or> sleep j (max 0 (i * b ^ j)) = None))
            \<longrightarrow> tries sleep env i b k = k)"
proof -
  have run: "filter spawn_or_wait (trace (snd (execute_under sleep cmd kwargs env)))
         = concat (map (\<lambda>k. Popen k #
                 (if created (env k) \<and> 0 < tries sleep env i b k
                  then [BackoffSleep (max 0 (i * b ^ tries sleep env i b k))] else []))
              [0 ..< popen_calls (snd (execute_under sleep cmd kwargs env))])"
  proof (cases "execute_options kwargs")
    case (Inl e)
    then show ?thesis by (simp add: execute_under_def initial_def)
  next
    case (Inr opts)
    then have o: "opts = fst (pop_options kwargs)"
      by (rule execute_options_Inr)
    have i: "as_int (opt_interval opts) = Some i"
      by (simp add: o opt_interval_pop_options assms(1,2))
    have b: "opt_backoff_rate opts = Some (get ''backoff_rate'' (PInt 2) kwargs)"
      by (simp add: o opt_backoff_rate_pop_options assms(1))
    show ?thesis
    proof (cases "as_int (opt_attempts opts)")
      case None
      with Inr show ?thesis by (simp add: execute_under_def initial_def)
    next
      case (Some a)
      have inv: "shared_data0 initial = tries sleep env i b (popen_calls initial)"
        by (simp add: initial_def)
      from loop_tries[OF i assms(3) b assms(4) inv, of cmd a]
      show ?thesis
        by (simp add: execute_under_def Inr Some) (simp add: initial_def)
    qed
  qed
  have all: "tries sleep env i b k = k"
    if "\<forall>j<k. created (env j) \<and> (j = 0 \<or> sleep j (max 0 (i * b ^ j)) = None)"
    using that by (rule tries_all_created)
  from run all show ?thesis by simp
qed


theorem backoff_exponent_is_tries_counter_witness:
  "\<not> has_key ''delay_on_retry'' [(''attempts'', PInt 3)]
   \<and> as_int (get ''interval'' (PInt 1) [(''attempts'', PInt 3)]) = Some 1 \<and> (1::int) \<noteq> 0
   \<and> as_int (get ''backoff_rate'' (PInt 2) [(''attempts'', PInt 3)]) = Some 2
   \<and> filter spawn_or_wait (trace (snd (execute_under time_sleep [''false'']
          [(''attempts'', PInt 3)] first_popen_fails)))
       = [Popen 0, Popen 1, Popen 2, BackoffSleep 2]
   \<and> trace (snd (execute [''false''] [(''attempts'', PInt 3)] first_popen_fails))
       = [Popen 0, SleepZero, Popen 1, SleepZero, Popen 2, BackoffSleep 2, SleepZero]"
proof -
  let ?kw = "[(''attempts'', PInt 3)]"
  have d: "\<not> has_key ''delay_on_retry'' ?kw"
    by (simp add: has_key_def)
  have i: "as_int (get ''interval'' (PInt 1) ?kw) = Some 1" and n: "(1::int) \<noteq> 0"
    and b: "as_int (get ''backoff_rate'' (PInt 2) ?kw) = Some 2"
    by (simp_all add: get_def)
  have t: "trace (snd (execute [''false''] ?kw first_popen_fails))
       = [Popen 0, SleepZero, Popen 1, SleepZero, Popen 2, BackoffSleep 2, SleepZero]"
    by (simp add: run_defs attempts_loop.simps first_popen_fails_def)
  have pc: "popen_calls (snd (execute_under time_sleep [''false''] ?kw first_popen_fails)) = 3"
    by (simp add: run_defs attempts_loop.simps first_popen_fails_def)
  have tr: "tries time_sleep first_popen_fails 1 2 0 = 0"
    "tries time_sleep first_popen_fails 1 2 (Suc 0) = 0"
    "tries time_sleep first_popen_fails 1 2 (Suc (Suc 0)) = Suc 0"
    by (simp_all add: first_popen_fails_def)
  from backoff_exponent_is_tries_counter[OF d i n b, of time_sleep "[''false'']" first_popen_fails 0]
  have "filter spawn_or_wait (trace (snd (execute_under time_sleep [''false''] ?kw first_popen_fails)))
       = [Popen 0, Popen 1, Popen 2, BackoffSleep 2]"
    unfolding pc by (simp add: upt_rec tr first_popen_fails_def numeral_2_eq_2)
  with d i n b t show ?thesis
    by blast
qed

text \<open>
  C4, as claimed, fails: with \<^verbatim>\<open>delay_on_retry=False\<close> neither wait is active, and a
  failing command is retried with no sleep but \<^verbatim>\<open>time.sleep(0)\<close>.
\<close>

theorem no_retry_wait_active:
  "execute_options [(''delay_on_retry'', PBool False), (''attempts'', PInt 2)]
     = Inr \<lparr>opt_interval = PNone, opt_backoff_rate = None,
            opt_check_exit_code = PList [0], opt_ignore_exit_code = False,
            opt_delay_on_retry = PBool False, opt_attempts = PInt 2,
            opt_loglevel = PInt 10, opt_timeout = PNone\<rparr>
   \<and> \<not> backoff_wait_active \<lparr>opt_interval = PNone, opt_backoff_rate = None,
            opt_check_exit_code = PList [0], opt_ignore_exit_code = False,
            opt_delay_on_retry = PBool False, opt_attempts = PInt 2,
            opt_loglevel = PInt 10, opt_timeout = PNone\<rparr>
   \<and> \<not> jitter_active \<lparr>opt_interval = PNone, opt_backoff_rate = None,
            opt_check_exit_code = PList [0], opt_ignore_exit_code = False,
            opt_delay_on_retry = PBool False, opt_attempts = PInt 2,
            opt_loglevel = PInt 10, opt_timeout = PNone\<rparr>
   \<and> execute [''false''] [(''delay_on_retry'', PBool False), (''attempts'', PInt 2)]
        (always_exits 1)
     = (Inl (ProcessExecutionError 1 [] [] [''false'']),
        \<lparr>shared_data0 = 2, shared_data1 = None, shared_data2 = None, popen_calls = 2,
          trace = [Popen 0, SleepZero, Popen 1, SleepZero]\<rparr>)"
  by (simp add: run_defs attempts_loop.simps always_exits_def backoff_wait_active_def
        jitter_active_def)

text \<open>
  C4, amended. For every call of \<^verbatim>\<open>execute\<close> whose options are accepted, at most one
  of the two waits is active, never both. The choice is made from \<^verbatim>\<open>kwargs\<close> before the
  first attempt: the backoff wait is active exactly when \<^verbatim>\<open>delay_on_retry\<close> is not
  passed and \<^verbatim>\<open>interval\<close> (default 1) is true; the random sleep is active exactly when
  \<^verbatim>\<open>delay_on_retry\<close> is passed and true. A wait that is not active never happens in the
  run: a backoff sleep among the effects means the backoff wait is active, a random
  sleep means the random sleep is active.
\<close>

theorem at_most_one_retry_wait:
  assumes "execute_options kwargs = Inr opts"
  shows "\<not> (backoff_wait_active opts \<and> jitter_active opts)
       \<and> backoff_wait_active opts
           = (\<not> has_key ''delay_on_retry'' kwargs \<and> truthy (get ''interval'' (PInt 1) kwargs))
       \<and> jitter_active opts
           = (has_key ''delay_on_retry'' kwargs
              \<and> truthy (get ''delay_on_retry'' (PBool True) kwargs))
       \<and> ((\<exists>w. BackoffSleep w \<in> set (trace (snd (execute cmd kwargs env))))
            \<longrightarrow> backoff_wait_active opts)
       \<and> (JitterSleep \<in> set (trace (snd (execute cmd kwargs env))) \<longrightarrow> jitter_active opts)"
proof -
  have o: "opts = fst (pop_options kwargs)"
    using assms by (rule execute_options_Inr)
  have b: "backoff_wait_active opts
           = (\<not> has_key ''delay_on_retry'' kwargs \<and> truthy (get ''interval'' (PInt 1) kwargs))"
    by (simp add: backoff_wait_active_def o opt_interval_pop_options)
  have j: "jitter_active opts
           = (has_key ''delay_on_retry'' kwargs
              \<and> truthy (get ''delay_on_retry'' (PBool True) kwargs))"
    by (simp add: jitter_active_def o opt_delay_pop_options)
  have tb: "backoff_wait_active opts"
    if "BackoffSleep w \<in> set (trace (snd (execute cmd kwargs env)))" for w
    using backoff_sleep_needs_interval[of w time_sleep cmd kwargs env] that assms
    by (simp add: execute_def)
  have tj: "jitter_active opts"
    if "JitterSleep \<in> set (trace (snd (execute cmd kwargs env)))"
    using jitter_sleep_needs_delay_on_retry[of time_sleep cmd kwargs env] that assms
    by (simp add: execute_def)
  from b j tb tj show ?thesis by blast
qed

theorem at_most_one_retry_wait_witness:
  "execute_options [(''attempts'', PInt 2)]
     = Inr \<lparr>opt_interval = PInt 1, opt_backoff_rate = Some (PInt 2),
            opt_check_exit_code = PList [0], opt_ignore_exit_code = False,
            opt_delay_on_retry = PBool False, opt_attempts = PInt 2,
            opt_loglevel = PInt 10, opt_timeout = PNone\<rparr>
   \<and> backoff_wait_active \<lparr>opt_interval = PInt 1, opt_backoff_rate = Some (PInt 2),
            opt_check_exit_code = PList [0], opt_ignore_exit_code = False,
            opt_delay_on_retry = PBool False, opt_attempts = PInt 2,
            opt_loglevel = PInt 10, opt_timeout = PNone\<rparr>
   \<and> \<not> jitter_active \<lparr>opt_interval = PInt 1, opt_backoff_rate = Some (PInt 2),
            opt_check_exit_code = PList [0], opt_ignore_exit_code = False,
            opt_delay_on_retry = PBool False, opt_attempts = PInt 2,
            opt_loglevel = PInt 10, opt_timeout = PNone\<rparr>
   \<and> JitterSleep \<notin> set (trace (snd (execute [''false''] [(''attempts'', PInt 2)] (always_exits 1))))
   \<and> trace (snd (execute [''false''] [(''delay_on_retry'', PBool True), (''attempts'', PInt 2)]
                   (always_exits 1)))
     = [Popen 0, JitterSleep, SleepZero, Popen 1, SleepZero]"
proof -
  let ?opts = "\<lparr>opt_interval = PInt 1, opt_backoff_rate = Some (PInt 2),
            opt_check_exit_code = PList [0], opt_ignore_exit_code = False,
            opt_delay_on_retry = PBool False, opt_attempts = PInt 2,
            opt_loglevel = PInt 10, opt_timeout = PNone\<rparr>"
  have o: "execute_options [(''attempts'', PInt 2)] = Inr ?opts"
    by (simp add: execute_options_def pop_options_def has_key_def pop_def get_def
          normalize_check_exit_code_def Let_def)
  have t: "trace (snd (execute [''false''] [(''delay_on_retry'', PBool True), (''attempts'', PInt 2)]
                   (always_exits 1)))
     = [Popen 0, JitterSleep, SleepZero, Popen 1, SleepZero]"
    by (simp add: run_defs attempts_loop.simps always_exits_def)
  have b: "backoff_wait_active ?opts"
    by (simp add: backoff_wait_active_def)
  have j: "\<not> jitter_active ?opts"
    by (simp add: jitter_active_def)
  from at_most_one_retry_wait [OF o, of "[''false'']" "always_exits 1"]
  have "JitterSleep \<in> set (trace (snd (execute [''false''] [(''attempts'', PInt 2)]
            (always_exits 1)))) \<longrightarrow> jitter_active ?opts"
    by blast
  with o t b j show ?thesis
    by blast
qed

text \<open>
  C5. The claim asks for ValueError when \<^verbatim>\<open>retries\<close> is below 1. The check of line 270
  is there and comes before any decorator is made, but its \<^verbatim>\<open>raise\<close> builds the
  message with \<^verbatim>\<open>_\<close>, which the module never binds: in a program that has not
  installed \<^verbatim>\<open>_\<close> into the builtins, \<^verbatim>\<open>retry(exceptions, retries=0)\<close> raises NameError.
\<close>

theorem retry_retries_0_raises_NameError:
  "retry [] exceptions interval 0 backoff_rate = Inl (NameError ''_'')"
  by (simp add: retry_def bound_def retry_locals_def module_globals_def)

text \<open>
  C6. When \<^verbatim>\<open>check_exit_code=False\<close> is passed, the options are accepted, at least one
  attempt is asked for, the log level is an integer and the first process returns, \<^verbatim>\<open>execute\<close> returns its stdout
  and stderr unchanged after one \<^verbatim>\<open>Popen\<close> call, whatever the return code. A boolean
  \<^verbatim>\<open>check_exit_code\<close> becomes the list \<open>[0]\<close> with every code ignored (\<^verbatim>\<open>False\<close>) or
  not (\<^verbatim>\<open>True\<close>: only 0 is accepted); an integer \<open>n\<close> becomes the list \<open>[n]\<close> (only \<open>n\<close>
  is accepted).
\<close>

theorem check_exit_code_False_accepts_every_code:
  assumes "get ''check_exit_code'' (PList [0]) kwargs = PBool False"
    and "execute_options kwargs = Inr opts"
    and "as_int (get ''attempts'' (PInt 1) kwargs) = Some attempts" and "0 < attempts"
    and "as_int (get ''loglevel'' (PInt 10) kwargs) = Some level"
    and "env 0 = Proc x (Returns stdout stderr returncode)"
  shows "fst (execute cmd kwargs env) = Inr (Some (stdout, stderr))
       \<and> popen_calls (snd (execute cmd kwargs env)) = 1
       \<and> normalize_check_exit_code (PBool False) = (True, PList [0])
       \<and> normalize_check_exit_code (PBool True) = (False, PList [0])
       \<and> normalize_check_exit_code (PInt n) = (False, PList [n])
       \<and> (\<exists>o1. execute_options [(''check_exit_code'', PBool False)] = Inr o1
               \<and> exit_code_rejected o1 rc = Inr False)
       \<and> (\<exists>o2. execute_options [(''check_exit_code'', PBool True)] = Inr o2
               \<and> exit_code_rejected o2 rc = Inr (rc \<noteq> 0))
       \<and> (\<exists>o3. execute_options [(''check_exit_code'', PInt n)] = Inr o3
               \<and> exit_code_rejected o3 rc = Inr (rc \<noteq> n))"
proof -
  have o: "opts = fst (pop_options kwargs)"
    using assms(2) by (rule execute_options_Inr)
  have ig: "opt_ignore_exit_code opts \<and> as_int (opt_loglevel opts) = Some level"
    by (simp add: o opt_ignore_pop_options opt_loglevel_pop_options assms(1,5)
          normalize_check_exit_code_def)
  have at: "as_int (opt_attempts opts) = Some attempts"
    by (simp add: o opt_attempts_pop_options assms(3))
  obtain r s1 where a: "attempt time_sleep opts cmd env initial = (r, s1)"
    by force
  with first_attempt_ignoring_exit_code[where env = env and cmd = cmd and sleep = time_sleep,
      OF ig assms(6)]
  have r: "r = Inr (stdout, stderr)" and s1: "popen_calls s1 = 1"
    by simp_all
  have "attempts_loop time_sleep opts cmd env attempts initial
          = (Inr (Some (stdout, stderr)), emit SleepZero s1)"
    by (subst attempts_loop.simps) (simp add: assms(4) a r)
  then have run: "fst (execute cmd kwargs env) = Inr (Some (stdout, stderr))"
    "popen_calls (snd (execute cmd kwargs env)) = 1"
    by (simp_all add: execute_def execute_under_def assms(2) at s1 emit_def)
  have n: "normalize_check_exit_code (PBool False) = (True, PList [0])"
    "normalize_check_exit_code (PBool True) = (False, PList [0])"
    "normalize_check_exit_code (PInt n) = (False, PList [n])"
    by (simp_all add: normalize_check_exit_code_def)
  have o1: "\<exists>o1. execute_options [(''check_exit_code'', PBool False)] = Inr o1
               \<and> exit_code_rejected o1 rc = Inr False"
    by (simp add: execute_options_def pop_options_def has_key_def pop_def get_def
          normalize_check_exit_code_def exit_code_rejected_def Let_def)
  have o2: "\<exists>o2. execute_options [(''check_exit_code'', PBool True)] = Inr o2
               \<and> exit_code_rejected o2 rc = Inr (rc \<noteq> 0)"
    by (simp add: execute_options_def pop_options_def has_key_def pop_def get_def
          normalize_check_exit_code_def exit_code_rejected_def Let_def)
  have o3: "\<exists>o3. execute_options [(''check_exit_code'', PInt n)] = Inr o3
               \<and> exit_code_rejected o3 rc = Inr (rc \<noteq> n)"
    by (simp add: execute_options_def pop_options_def has_key_def pop_def get_def
          normalize_check_exit_code_def exit_code_rejected_def Let_def)
  from run n o1 o2 o3 show ?thesis by blast
qed

theorem check_exit_code_False_accepts_every_code_witness:
  "always_exits 137 0 = Proc False (Returns [] [] 137)
   \<and> fst (execute [''kill'', ''-9'', ''0'']
       [(''check_exit_code'', PBool False), (''attempts'', PInt 2), (''timeout'', PInt 5)]
       (always_exits 137))
     = Inr (Some ([], []))
   \<and> popen_calls (snd (execute [''kill'', ''-9'', ''0'']
       [(''check_exit_code'', PBool False), (''attempts'', PInt 2), (''timeout'', PInt 5)]
       (always_exits 137)))
     = 1"
proof -
  let ?kw = "[(''check_exit_code'', PBool False), (''attempts'', PInt 2), (''timeout'', PInt 5)]"
  let ?opts = "\<lparr>opt_interval = PInt 1, opt_backoff_rate = Some (PInt 2),
            opt_check_exit_code = PList [0], opt_ignore_exit_code = True,
            opt_delay_on_retry = PBool False, opt_attempts = PInt 2,
            opt_loglevel = PInt 10, opt_timeout = PInt 5\<rparr>"
  have c: "get ''check_exit_code'' (PList [0]) ?kw = PBool False"
    by (simp add: get_def)
  have o: "execute_options ?kw = Inr ?opts"
    by (simp add: execute_options_def pop_options_def has_key_def pop_def get_def
          normalize_check_exit_code_def Let_def)
  have a: "as_int (get ''attempts'' (PInt 1) ?kw) = Some 2" and p: "(0::int) < 2"
    by (simp_all add: get_def)
  have l: "as_int (get ''loglevel'' (PInt 10) ?kw) = Some 10"
    by (simp add: get_def)
  have e: "always_exits 137 0 = Proc False (Returns [] [] 137)"
    by (simp add: always_exits_def)
  from check_exit_code_False_accepts_every_code
         [where env = "always_exits 137" and cmd = "[''kill'', ''-9'', ''0'']", OF c o a p l e] e
  show ?thesis by simp
qed

text \<open>
  C8. When \<^verbatim>\<open>kwargs\<close> holds a name that is none of the option names \<^verbatim>\<open>execute\<close> takes
  out, the call raises UnknownArgumentError naming it, and nothing has happened before:
  no \<^verbatim>\<open>Popen\<close> call, no effect at all.
\<close>

theorem unknown_option_rejected_before_spawn:
  assumes "has_key k kwargs" and "k \<notin> set recognized"
  shows "\<exists>names. execute cmd kwargs env = (Inl (UnknownArgumentError names), initial)
           \<and> k \<in> set names \<and> popen_calls initial = 0 \<and> trace initial = []"
proof -
  have "has_key k (snd (pop_options kwargs))"
    using assms by (simp add: has_key_leftover)
  then have "snd (pop_options kwargs) \<noteq> []" "k \<in> set (map fst (snd (pop_options kwargs)))"
    by (auto simp: has_key_def)
  then show ?thesis
    by (simp add: execute_def execute_under_def execute_options_def split_def initial_def)
qed

theorem unknown_option_rejected_before_spawn_witness:
  "has_key ''retries'' [(''attempts'', PInt 3), (''retries'', PInt 2)]
   \<and> ''retries'' \<notin> set recognized
   \<and> execute [''true''] [(''attempts'', PInt 3), (''retries'', PInt 2)] (always_exits 0)
     = (Inl (UnknownArgumentError [''retries'']), initial)
   \<and> popen_calls initial = 0 \<and> trace initial = []"
proof -
  have k: "has_key ''retries'' [(''attempts'', PInt 3), (''retries'', PInt 2)]"
    by (simp add: has_key_def)
  have u: "''retries'' \<notin> set recognized"
    by (simp add: recognized_def)
  from unknown_option_rejected_before_spawn [OF k u, of "[''true'']" "always_exits 0"]
  obtain names where
    n: "execute [''true''] [(''attempts'', PInt 3), (''retries'', PInt 2)] (always_exits 0)
          = (Inl (UnknownArgumentError names), initial)"
    and i: "popen_calls initial = 0" "trace initial = []"
    by blast
  have "execute [''true''] [(''attempts'', PInt 3), (''retries'', PInt 2)] (always_exits 0)
          = (Inl (UnknownArgumentError [''retries'']), initial)"
    by (simp add: execute_def execute_under_def execute_options_def pop_options_def has_key_def
          pop_def get_def normalize_check_exit_code_def Let_def)
  with k u i show ?thesis by simp
qed

text \<open>
  C9. The claim asks that a timer that fires sends the termination signal. In the code
  \<^verbatim>\<open>on_timeout\<close> reads \<^verbatim>\<open>sig_end\<close>, a name with no binding, before it reaches
  \<^verbatim>\<open>proc.send_signal\<close>: no run of \<^verbatim>\<open>execute\<close> ever sends a signal, and a command that
  outlives \<^verbatim>\<open>timeout=1\<close> is left to end by itself (here with return code 0, which is
  accepted). The timer is neither cancelled before it fires nor followed by a signal.
\<close>

theorem timeout_sends_no_signal:
  "SendSignal p \<notin> set (trace (snd (execute cmd kwargs env)))
   \<and> execute [''sleep'', ''10''] [(''timeout'', PInt 1)] (outlives_timeout 0)
     = (Inr (Some ([], [])),
        \<lparr>shared_data0 = 1, shared_data1 = Some 0, shared_data2 = None, popen_calls = 1,
          trace = [Popen 0, TimerStart 0, TimerThreadError 0 (NameError ''sig_end''),
                   TimerCancel 0, SleepZero]\<rparr>)"
proof -
  have "execute [''sleep'', ''10''] [(''timeout'', PInt 1)] (outlives_timeout 0)
     = (Inr (Some ([], [])),
        \<lparr>shared_data0 = 1, shared_data1 = Some 0, shared_data2 = None, popen_calls = 1,
          trace = [Popen 0, TimerStart 0, TimerThreadError 0 (NameError ''sig_end''),
                   TimerCancel 0, SleepZero]\<rparr>)"
    by (simp add: run_defs attempts_loop.simps outlives_timeout_def on_timeout_eq)
  with no_signal_sent[of p time_sleep cmd kwargs env] show ?thesis
    by (simp add: execute_def)
qed

end
